theory Spec2Isabelle
  imports Complex_Main
begin

section \<open>EngineUtilities: scalar kernel, vectors, matrices, quaternions\<close>

text \<open>
  The C++ sources compute on \<^verbatim>\<open>float\<close> (IEEE binary32). A \<^verbatim>\<open>float\<close> value is
  embedded as the real number it denotes, and an arithmetic operator whose result is only
  passed on as a value is read as the exact operator. Where the rounded result decides
  what the program does next (the loop test of \<^verbatim>\<open>power\<close>, the range-reduction loops of
  \<^verbatim>\<open>cos\<close>, the zero test of \<^verbatim>\<open>Quaternion::inverse\<close>) the operation is rounded to
  binary32, to nearest with ties to even, with subnormal numbers and overflow to
  infinity. A C++ \<^verbatim>\<open>int\<close> is an integer between \<open>INT_MIN\<close> and \<open>INT_MAX\<close>; where the
  source can leave that range (an incremented loop counter, a conversion from
  \<^verbatim>\<open>float\<close>) the behaviour is undefined in C++ and the model returns \<open>None\<close>.
\<close>

subsection \<open>IEEE binary32 rounding\<close>

text \<open>Rounding a real to the nearest integer, a tie going to the even one.\<close>

definition round_half_even :: "real \<Rightarrow> int" where
  "round_half_even t =
     (let f = \<lfloor>t\<rfloor>; d = t - real_of_int f
      in if d < 1 / 2 then f
         else if 1 / 2 < d then f + 1
         else if even f then f else f + 1)"

text \<open>
  \<open>binary32 x\<close> is \<open>x\<close> rounded to a binary32 significand of 24 bits: the unit in the
  last place is \<open>2\<^sup>e\<^sup>-\<^sup>2\<^sup>3\<close> for the exponent \<open>e\<close> of \<open>x\<close>, and \<open>2\<^sup>-\<^sup>1\<^sup>4\<^sup>9\<close> below the
  smallest normal number \<open>2\<^sup>-\<^sup>1\<^sup>2\<^sup>6\<close>. The exponent is not bounded above here;
  \<open>float_result\<close> adds the overflow.
\<close>

definition binary32 :: "real \<Rightarrow> real" where
  "binary32 x =
     (if x = 0 then 0
      else (let e = max (- 126) \<lfloor>log 2 \<bar>x\<bar>\<rfloor>;
                ulp = 2 powr (real_of_int e - 23)
            in ulp * real_of_int (round_half_even (x / ulp))))"





subsection \<open>Math/EngineMath.h\<close>

definition INT_MAX :: int where
  "INT_MAX = 2147483647"

definition INT_MIN :: int where
  "INT_MIN = - 2147483648"

text \<open>\<^verbatim>\<open>static_cast<int>(f)\<close>: truncation toward zero, undefined when the truncated
  value is not an \<^verbatim>\<open>int\<close>.\<close>

definition static_cast_int :: "real \<Rightarrow> int option" where
  "static_cast_int f =
     (let t = (if 0 \<le> f then \<lfloor>f\<rfloor> else \<lceil>f\<rceil>)
      in if INT_MIN \<le> t \<and> t \<le> INT_MAX then Some t else None)"

definition square :: "real \<Rightarrow> real" where
  "square number = number * number"

text \<open>The loop of \<^verbatim>\<open>sqrt\<close>: \<^verbatim>\<open>for (int i = 0; i < 10; i++) xi = xi - (square(xi) - number) / (2 * xi);\<close>\<close>

function sqrt_loop :: "int \<Rightarrow> real \<Rightarrow> real \<Rightarrow> real" where
  "sqrt_loop i xi number =
     (if i < 10 then sqrt_loop (i + 1) (xi - (square xi - number) / (2 * xi)) number
      else xi)"
  by pat_completeness auto
termination
  by (relation "measure (\<lambda>(i, xi, number). nat (10 - i))") auto

declare sqrt_loop.simps [simp del]

definition EngineMath_sqrt :: "real \<Rightarrow> real" where
  "EngineMath_sqrt number =
     (if number \<le> 0 then 0 else sqrt_loop 0 (number / 2) number)"

text \<open>The loop of \<^verbatim>\<open>power\<close>: \<^verbatim>\<open>for (int i = 0; i < exponent; i++) result *= base;\<close>
  The comparison converts \<open>i\<close> to \<^verbatim>\<open>float\<close>, which rounds it; \<^verbatim>\<open>i++\<close> at \<open>INT_MAX\<close> is
  undefined (an \<^verbatim>\<open>int\<close> is never above \<open>INT_MAX\<close>).\<close>

function power_loop :: "int \<Rightarrow> real \<Rightarrow> real \<Rightarrow> real \<Rightarrow> real option" where
  "power_loop i result base exponent =
     (if binary32 (real_of_int i) < exponent
      then (if INT_MAX \<le> i then None
            else power_loop (i + 1) (result * base) base exponent)
      else Some result)"
  by pat_completeness auto
termination
  by (relation "measure (\<lambda>(i, result, base, exponent). nat (INT_MAX - i))") auto

declare power_loop.simps [simp del]

definition EngineMath_power :: "real \<Rightarrow> real \<Rightarrow> real option" where
  "EngineMath_power base exponent = power_loop 0 1 base exponent"

definition EngineMath_mod :: "real \<Rightarrow> real \<Rightarrow> real option" where
  "EngineMath_mod a b =
     (if b = 0 then Some 0
      else (case static_cast_int (a / b) of
              None \<Rightarrow> None
            | Some q \<Rightarrow> Some ((a / b) - real_of_int q)))"









definition EngineMath_lerp :: "real \<Rightarrow> real \<Rightarrow> real \<Rightarrow> real" where
  "EngineMath_lerp start end' t = start + (end' - start) * t"

subsection \<open>Vectors/Vector2.h, Vector3.h, Vector4.h\<close>

datatype CVector2 = CVector2 (CVector2_x: real) (CVector2_y: real)

datatype CVector3 = CVector3 (CVector3_x: real) (CVector3_y: real) (CVector3_z: real)

datatype CVector4 =
  CVector4 (CVector4_x: real) (CVector4_y: real) (CVector4_z: real) (CVector4_w: real)

definition CVector2_add :: "CVector2 \<Rightarrow> CVector2 \<Rightarrow> CVector2" where
  "CVector2_add v otro =
     CVector2 (CVector2_x v + CVector2_x otro) (CVector2_y v + CVector2_y otro)"

definition CVector2_sub :: "CVector2 \<Rightarrow> CVector2 \<Rightarrow> CVector2" where
  "CVector2_sub v otro =
     CVector2 (CVector2_x v - CVector2_x otro) (CVector2_y v - CVector2_y otro)"

definition CVector2_scale :: "CVector2 \<Rightarrow> real \<Rightarrow> CVector2" where
  "CVector2_scale v fac = CVector2 (CVector2_x v * fac) (CVector2_y v * fac)"

text \<open>\<^verbatim>\<open>operator[](int index)\<close>: \<^verbatim>\<open>return index == 0 ? x : y;\<close>\<close>

definition CVector2_index :: "CVector2 \<Rightarrow> int \<Rightarrow> real" where
  "CVector2_index v index = (if index = 0 then CVector2_x v else CVector2_y v)"

definition CVector2_lerp :: "CVector2 \<Rightarrow> CVector2 \<Rightarrow> real \<Rightarrow> CVector2" where
  "CVector2_lerp a b t =
     (let t = (if t < 0 then 0 else t);
          t = (if t > 1 then 1 else t)
      in CVector2_add a (CVector2_scale (CVector2_sub b a) t))"

definition CVector3_add :: "CVector3 \<Rightarrow> CVector3 \<Rightarrow> CVector3" where
  "CVector3_add v otro =
     CVector3 (CVector3_x v + CVector3_x otro) (CVector3_y v + CVector3_y otro)
              (CVector3_z v + CVector3_z otro)"

definition CVector3_sub :: "CVector3 \<Rightarrow> CVector3 \<Rightarrow> CVector3" where
  "CVector3_sub v otro =
     CVector3 (CVector3_x v - CVector3_x otro) (CVector3_y v - CVector3_y otro)
              (CVector3_z v - CVector3_z otro)"

definition CVector3_scale :: "CVector3 \<Rightarrow> real \<Rightarrow> CVector3" where
  "CVector3_scale v sca =
     CVector3 (CVector3_x v * sca) (CVector3_y v * sca) (CVector3_z v * sca)"

text \<open>\<^verbatim>\<open>if (index == 0) return x; if (index == 1) return y; return z;\<close>\<close>

definition CVector3_index :: "CVector3 \<Rightarrow> int \<Rightarrow> real" where
  "CVector3_index v index =
     (if index = 0 then CVector3_x v
      else if index = 1 then CVector3_y v
      else CVector3_z v)"

definition CVector3_lerp :: "CVector3 \<Rightarrow> CVector3 \<Rightarrow> real \<Rightarrow> CVector3" where
  "CVector3_lerp a b t =
     (let t = (if t < 0 then 0 else t);
          t = (if t > 1 then 1 else t)
      in CVector3_add a (CVector3_scale (CVector3_sub b a) t))"

definition CVector4_add :: "CVector4 \<Rightarrow> CVector4 \<Rightarrow> CVector4" where
  "CVector4_add v otro =
     CVector4 (CVector4_x v + CVector4_x otro) (CVector4_y v + CVector4_y otro)
              (CVector4_z v + CVector4_z otro) (CVector4_w v + CVector4_w otro)"

definition CVector4_sub :: "CVector4 \<Rightarrow> CVector4 \<Rightarrow> CVector4" where
  "CVector4_sub v otro =
     CVector4 (CVector4_x v - CVector4_x otro) (CVector4_y v - CVector4_y otro)
              (CVector4_z v - CVector4_z otro) (CVector4_w v - CVector4_w otro)"

definition CVector4_scale :: "CVector4 \<Rightarrow> real \<Rightarrow> CVector4" where
  "CVector4_scale v fac =
     CVector4 (CVector4_x v * fac) (CVector4_y v * fac) (CVector4_z v * fac)
              (CVector4_w v * fac)"

definition CVector4_lerp :: "CVector4 \<Rightarrow> CVector4 \<Rightarrow> real \<Rightarrow> CVector4" where
  "CVector4_lerp a b t =
     (let t = (if t < 0 then 0 else t);
          t = (if t > 1 then 1 else t)
      in CVector4_add a (CVector4_scale (CVector4_sub b a) t))"

subsection \<open>Rotations/Quaternion.h\<close>

datatype Quaternion =
  Quaternion (Quaternion_x: real) (Quaternion_y: real) (Quaternion_z: real)
             (Quaternion_w: real)




text \<open>\<^verbatim>\<open>sqrt\<close> in this header is \<^verbatim>\<open>EngineMath::sqrt\<close>.\<close>

definition Quaternion_length :: "Quaternion \<Rightarrow> real" where
  "Quaternion_length q =
     (let x = Quaternion_x q; y = Quaternion_y q; z = Quaternion_z q; w = Quaternion_w q
      in EngineMath_sqrt (x * x + y * y + z * z + w * w))"

definition Quaternion_normalized :: "Quaternion \<Rightarrow> Quaternion" where
  "Quaternion_normalized q =
     (let len = Quaternion_length q
      in if len = 0 then Quaternion 0 0 0 1
         else Quaternion (Quaternion_x q / len) (Quaternion_y q / len)
                         (Quaternion_z q / len) (Quaternion_w q / len))"



definition Quaternion_lerp :: "Quaternion \<Rightarrow> Quaternion \<Rightarrow> real \<Rightarrow> Quaternion" where
  "Quaternion_lerp a b t =
     (let t = (if t < 0 then 0 else (if t > 1 then 1 else t))
      in Quaternion_normalized
           (Quaternion
              (Quaternion_x a + (Quaternion_x b - Quaternion_x a) * t)
              (Quaternion_y a + (Quaternion_y b - Quaternion_y a) * t)
              (Quaternion_z a + (Quaternion_z b - Quaternion_z a) * t)
              (Quaternion_w a + (Quaternion_w b - Quaternion_w a) * t)))"

subsection \<open>Fixed-size arrays\<close>

text \<open>
  \<^verbatim>\<open>float m[N][N]\<close> is an array of \<open>N\<close> rows of \<open>N\<close> cells. An index beyond the bound
  is undefined behaviour in C++; every index the operations below compute is a loop
  counter below the bound, a literal, or a remainder modulo 3, and the accessors send
  any other index to the last cell.
\<close>

datatype 'a array2 = Array2 (cell2_0: 'a) (cell2_1: 'a)

datatype 'a array3 = Array3 (cell3_0: 'a) (cell3_1: 'a) (cell3_2: 'a)

datatype 'a array4 = Array4 (cell4_0: 'a) (cell4_1: 'a) (cell4_2: 'a) (cell4_3: 'a)

definition array2_get :: "'a array2 \<Rightarrow> nat \<Rightarrow> 'a" where
  "array2_get a i = (if i = 0 then cell2_0 a else cell2_1 a)"

definition array2_set :: "'a array2 \<Rightarrow> nat \<Rightarrow> 'a \<Rightarrow> 'a array2" where
  "array2_set a i v =
     (if i = 0 then Array2 v (cell2_1 a) else Array2 (cell2_0 a) v)"

definition array3_get :: "'a array3 \<Rightarrow> nat \<Rightarrow> 'a" where
  "array3_get a i = (if i = 0 then cell3_0 a else if i = 1 then cell3_1 a else cell3_2 a)"

definition array3_set :: "'a array3 \<Rightarrow> nat \<Rightarrow> 'a \<Rightarrow> 'a array3" where
  "array3_set a i v =
     (if i = 0 then Array3 v (cell3_1 a) (cell3_2 a)
      else if i = 1 then Array3 (cell3_0 a) v (cell3_2 a)
      else Array3 (cell3_0 a) (cell3_1 a) v)"

definition array4_get :: "'a array4 \<Rightarrow> nat \<Rightarrow> 'a" where
  "array4_get a i =
     (if i = 0 then cell4_0 a else if i = 1 then cell4_1 a
      else if i = 2 then cell4_2 a else cell4_3 a)"

definition array4_set :: "'a array4 \<Rightarrow> nat \<Rightarrow> 'a \<Rightarrow> 'a array4" where
  "array4_set a i v =
     (if i = 0 then Array4 v (cell4_1 a) (cell4_2 a) (cell4_3 a)
      else if i = 1 then Array4 (cell4_0 a) v (cell4_2 a) (cell4_3 a)
      else if i = 2 then Array4 (cell4_0 a) (cell4_1 a) v (cell4_3 a)
      else Array4 (cell4_0 a) (cell4_1 a) (cell4_2 a) v)"

subsection \<open>Matrices/Matrix2x2.h\<close>

type_synonym Matrix2x2 = "real array2 array2"

text \<open>\<open>Matrix2x2_m M i j\<close> reads \<^verbatim>\<open>m[i][j]\<close>, \<open>Matrix2x2_assign M i j v\<close> is
  \<^verbatim>\<open>m[i][j] = v\<close>.\<close>

definition Matrix2x2_m :: "Matrix2x2 \<Rightarrow> nat \<Rightarrow> nat \<Rightarrow> real" where
  "Matrix2x2_m M i j = array2_get (array2_get M i) j"

definition Matrix2x2_assign :: "Matrix2x2 \<Rightarrow> nat \<Rightarrow> nat \<Rightarrow> real \<Rightarrow> Matrix2x2" where
  "Matrix2x2_assign M i j v = array2_set M i (array2_set (array2_get M i) j v)"

text \<open>The element-wise constructor.\<close>

definition Matrix2x2 :: "real \<Rightarrow> real \<Rightarrow> real \<Rightarrow> real \<Rightarrow> Matrix2x2" where
  "Matrix2x2 m00 m01 m10 m11 = Array2 (Array2 m00 m01) (Array2 m10 m11)"

definition Matrix2x2_setIdentity :: "Matrix2x2 \<Rightarrow> Matrix2x2" where
  "Matrix2x2_setIdentity this =
     fold (\<lambda>(i, j, v) M. Matrix2x2_assign M i j v)
       [(0, 0, 1), (0, 1, 0),
        (1, 0, 0), (1, 1, 1)] this"

text \<open>The default constructor runs \<^verbatim>\<open>setIdentity()\<close> on the object's storage, whose
  content before the call is whatever \<open>storage\<close> holds.\<close>

definition Matrix2x2_new :: "Matrix2x2 \<Rightarrow> Matrix2x2" where
  "Matrix2x2_new storage = Matrix2x2_setIdentity storage"

definition Matrix2x2_zero :: Matrix2x2 where
  "Matrix2x2_zero = Matrix2x2 0 0 0 0"

definition Matrix2x2_identity :: "Matrix2x2 \<Rightarrow> Matrix2x2" where
  "Matrix2x2_identity storage = Matrix2x2_new storage"

definition Matrix2x2_mul :: "Matrix2x2 \<Rightarrow> Matrix2x2 \<Rightarrow> Matrix2x2" where
  "Matrix2x2_mul M other =
     fold (\<lambda>i r.
       fold (\<lambda>j r.
         fold (\<lambda>k r.
           Matrix2x2_assign r i j (Matrix2x2_m r i j + Matrix2x2_m M i k * Matrix2x2_m other k j))
         [0..<2] r)
       [0..<2] r)
     [0..<2] Matrix2x2_zero"

definition Matrix2x2_determinant :: "Matrix2x2 \<Rightarrow> real" where
  "Matrix2x2_determinant M =
     Matrix2x2_m M 0 0 * Matrix2x2_m M 1 1 - Matrix2x2_m M 0 1 * Matrix2x2_m M 1 0"

definition Matrix2x2_inverse :: "Matrix2x2 \<Rightarrow> Matrix2x2 \<Rightarrow> Matrix2x2" where
  "Matrix2x2_inverse storage M =
     (let det = Matrix2x2_determinant M
      in if det = 0 then Matrix2x2_new storage
         else (let invDet = 1 / det
               in Matrix2x2
                    (Matrix2x2_m M 1 1 * invDet) (- Matrix2x2_m M 0 1 * invDet)
                    (- Matrix2x2_m M 1 0 * invDet) (Matrix2x2_m M 0 0 * invDet)))"

subsection \<open>Matrices/Matrix3x3.h\<close>

type_synonym Matrix3x3 = "real array3 array3"

definition Matrix3x3_m :: "Matrix3x3 \<Rightarrow> nat \<Rightarrow> nat \<Rightarrow> real" where
  "Matrix3x3_m M i j = array3_get (array3_get M i) j"

definition Matrix3x3_assign :: "Matrix3x3 \<Rightarrow> nat \<Rightarrow> nat \<Rightarrow> real \<Rightarrow> Matrix3x3" where
  "Matrix3x3_assign M i j v = array3_set M i (array3_set (array3_get M i) j v)"

definition Matrix3x3 ::
  "real \<Rightarrow> real \<Rightarrow> real \<Rightarrow> real \<Rightarrow> real \<Rightarrow> real \<Rightarrow> real \<Rightarrow> real \<Rightarrow> real \<Rightarrow> Matrix3x3" where
  "Matrix3x3 m00 m01 m02 m10 m11 m12 m20 m21 m22 =
     Array3 (Array3 m00 m01 m02) (Array3 m10 m11 m12) (Array3 m20 m21 m22)"

definition Matrix3x3_setIdentity :: "Matrix3x3 \<Rightarrow> Matrix3x3" where
  "Matrix3x3_setIdentity this =
     fold (\<lambda>(i, j, v) M. Matrix3x3_assign M i j v)
       [(0, 0, 1), (0, 1, 0), (0, 2, 0),
        (1, 0, 0), (1, 1, 1), (1, 2, 0),
        (2, 0, 0), (2, 1, 0), (2, 2, 1)] this"

definition Matrix3x3_new :: "Matrix3x3 \<Rightarrow> Matrix3x3" where
  "Matrix3x3_new storage = Matrix3x3_setIdentity storage"

definition Matrix3x3_identity :: Matrix3x3 where
  "Matrix3x3_identity = Matrix3x3 1 0 0  0 1 0  0 0 1"

definition Matrix3x3_zero :: Matrix3x3 where
  "Matrix3x3_zero = Matrix3x3 0 0 0  0 0 0  0 0 0"

text \<open>\<^verbatim>\<open>operator*(float sca)\<close>: the local \<^verbatim>\<open>Matrix3x3 r;\<close> is default-constructed on
  \<open>storage\<close>, then every cell is assigned.\<close>

definition Matrix3x3_scale :: "Matrix3x3 \<Rightarrow> Matrix3x3 \<Rightarrow> real \<Rightarrow> Matrix3x3" where
  "Matrix3x3_scale storage M sca =
     fold (\<lambda>i r.
       fold (\<lambda>j r. Matrix3x3_assign r i j (Matrix3x3_m M i j * sca)) [0..<3] r)
     [0..<3] (Matrix3x3_new storage)"

definition Matrix3x3_mul :: "Matrix3x3 \<Rightarrow> Matrix3x3 \<Rightarrow> Matrix3x3" where
  "Matrix3x3_mul M otro =
     fold (\<lambda>fil r.
       fold (\<lambda>col r.
         fold (\<lambda>k r.
           Matrix3x3_assign r fil col
             (Matrix3x3_m r fil col + Matrix3x3_m M fil k * Matrix3x3_m otro k col))
         [0..<3] r)
       [0..<3] r)
     [0..<3] Matrix3x3_zero"

text \<open>\<^verbatim>\<open>operator*(const CVector2&)\<close>: \<open>x\<close> and \<open>y\<close> are divided in place when
  \<^verbatim>\<open>w != 0.0f\<close>.\<close>

definition Matrix3x3_mul_CVector2 :: "Matrix3x3 \<Rightarrow> CVector2 \<Rightarrow> CVector2" where
  "Matrix3x3_mul_CVector2 M vec =
     (let x = Matrix3x3_m M 0 0 * CVector2_x vec + Matrix3x3_m M 0 1 * CVector2_y vec
                + Matrix3x3_m M 0 2 * 1;
          y = Matrix3x3_m M 1 0 * CVector2_x vec + Matrix3x3_m M 1 1 * CVector2_y vec
                + Matrix3x3_m M 1 2 * 1;
          w = Matrix3x3_m M 2 0 * CVector2_x vec + Matrix3x3_m M 2 1 * CVector2_y vec
                + Matrix3x3_m M 2 2 * 1;
          (x, y) = (if w \<noteq> 0 then (x / w, y / w) else (x, y))
      in CVector2 x y)"

definition Matrix3x3_mul_CVector3 :: "Matrix3x3 \<Rightarrow> CVector3 \<Rightarrow> CVector3" where
  "Matrix3x3_mul_CVector3 M vec =
     CVector3
       (Matrix3x3_m M 0 0 * CVector3_x vec + Matrix3x3_m M 0 1 * CVector3_y vec
          + Matrix3x3_m M 0 2 * CVector3_z vec)
       (Matrix3x3_m M 1 0 * CVector3_x vec + Matrix3x3_m M 1 1 * CVector3_y vec
          + Matrix3x3_m M 1 2 * CVector3_z vec)
       (Matrix3x3_m M 2 0 * CVector3_x vec + Matrix3x3_m M 2 1 * CVector3_y vec
          + Matrix3x3_m M 2 2 * CVector3_z vec)"

definition Matrix3x3_determinant :: "Matrix3x3 \<Rightarrow> real" where
  "Matrix3x3_determinant M =
     Matrix3x3_m M 0 0 * (Matrix3x3_m M 1 1 * Matrix3x3_m M 2 2 - Matrix3x3_m M 1 2 * Matrix3x3_m M 2 1) -
     Matrix3x3_m M 0 1 * (Matrix3x3_m M 1 0 * Matrix3x3_m M 2 2 - Matrix3x3_m M 1 2 * Matrix3x3_m M 2 0) +
     Matrix3x3_m M 0 2 * (Matrix3x3_m M 1 0 * Matrix3x3_m M 2 1 - Matrix3x3_m M 1 1 * Matrix3x3_m M 2 0)"

definition Matrix3x3_transpose :: "Matrix3x3 \<Rightarrow> Matrix3x3" where
  "Matrix3x3_transpose M =
     Matrix3x3
       (Matrix3x3_m M 0 0) (Matrix3x3_m M 1 0) (Matrix3x3_m M 2 0)
       (Matrix3x3_m M 0 1) (Matrix3x3_m M 1 1) (Matrix3x3_m M 2 1)
       (Matrix3x3_m M 0 2) (Matrix3x3_m M 1 2) (Matrix3x3_m M 2 2)"

text \<open>\<^verbatim>\<open>cofactor(int fil, int col)\<close>; its callers pass 0, 1 and 2 only.\<close>

definition Matrix3x3_cofactor :: "Matrix3x3 \<Rightarrow> nat \<Rightarrow> nat \<Rightarrow> real" where
  "Matrix3x3_cofactor M fil col =
     (let r1 = (fil + 1) mod 3; r2 = (fil + 2) mod 3;
          c1 = (col + 1) mod 3; c2 = (col + 2) mod 3;
          minor = Matrix3x3_m M r1 c1 * Matrix3x3_m M r2 c2
                    - Matrix3x3_m M r1 c2 * Matrix3x3_m M r2 c1
      in if (fil + col) mod 2 = 0 then minor else - minor)"

definition Matrix3x3_cofactorMatrix :: "Matrix3x3 \<Rightarrow> Matrix3x3" where
  "Matrix3x3_cofactorMatrix M =
     Matrix3x3
       (Matrix3x3_cofactor M 0 0) (Matrix3x3_cofactor M 0 1) (Matrix3x3_cofactor M 0 2)
       (Matrix3x3_cofactor M 1 0) (Matrix3x3_cofactor M 1 1) (Matrix3x3_cofactor M 1 2)
       (Matrix3x3_cofactor M 2 0) (Matrix3x3_cofactor M 2 1) (Matrix3x3_cofactor M 2 2)"

definition Matrix3x3_adjugate :: "Matrix3x3 \<Rightarrow> Matrix3x3" where
  "Matrix3x3_adjugate M = Matrix3x3_transpose (Matrix3x3_cofactorMatrix M)"

definition Matrix3x3_inverse :: "Matrix3x3 \<Rightarrow> Matrix3x3 \<Rightarrow> Matrix3x3" where
  "Matrix3x3_inverse storage M =
     (let det = Matrix3x3_determinant M
      in if det = 0 then Matrix3x3_identity
         else Matrix3x3_scale storage (Matrix3x3_adjugate M) (1 / det))"

subsection \<open>Matrices/Matrix4x4.h\<close>

type_synonym Matrix4x4 = "real array4 array4"

definition Matrix4x4_m :: "Matrix4x4 \<Rightarrow> nat \<Rightarrow> nat \<Rightarrow> real" where
  "Matrix4x4_m M i j = array4_get (array4_get M i) j"

definition Matrix4x4_assign :: "Matrix4x4 \<Rightarrow> nat \<Rightarrow> nat \<Rightarrow> real \<Rightarrow> Matrix4x4" where
  "Matrix4x4_assign M i j v = array4_set M i (array4_set (array4_get M i) j v)"

definition Matrix4x4 ::
  "real \<Rightarrow> real \<Rightarrow> real \<Rightarrow> real \<Rightarrow> real \<Rightarrow> real \<Rightarrow> real \<Rightarrow> real \<Rightarrow>
   real \<Rightarrow> real \<Rightarrow> real \<Rightarrow> real \<Rightarrow> real \<Rightarrow> real \<Rightarrow> real \<Rightarrow> real \<Rightarrow> Matrix4x4" where
  "Matrix4x4 m00 m01 m02 m03 m10 m11 m12 m13 m20 m21 m22 m23 m30 m31 m32 m33 =
     Array4 (Array4 m00 m01 m02 m03) (Array4 m10 m11 m12 m13)
            (Array4 m20 m21 m22 m23) (Array4 m30 m31 m32 m33)"

definition Matrix4x4_setIdentity :: "Matrix4x4 \<Rightarrow> Matrix4x4" where
  "Matrix4x4_setIdentity this =
     fold (\<lambda>(i, j, v) M. Matrix4x4_assign M i j v)
       [(0, 0, 1), (0, 1, 0), (0, 2, 0), (0, 3, 0),
        (1, 0, 0), (1, 1, 1), (1, 2, 0), (1, 3, 0),
        (2, 0, 0), (2, 1, 0), (2, 2, 1), (2, 3, 0),
        (3, 0, 0), (3, 1, 0), (3, 2, 1), (3, 3, 0)] this"

definition Matrix4x4_new :: "Matrix4x4 \<Rightarrow> Matrix4x4" where
  "Matrix4x4_new storage = Matrix4x4_setIdentity storage"

definition Matrix4x4_identity :: Matrix4x4 where
  "Matrix4x4_identity = Matrix4x4 1 0 0 0  0 1 0 0  0 0 1 0  0 0 0 1"

definition Matrix4x4_mul_CVector4 :: "Matrix4x4 \<Rightarrow> CVector4 \<Rightarrow> CVector4" where
  "Matrix4x4_mul_CVector4 M vec =
     CVector4
       (Matrix4x4_m M 0 0 * CVector4_x vec + Matrix4x4_m M 0 1 * CVector4_y vec
          + Matrix4x4_m M 0 2 * CVector4_z vec + Matrix4x4_m M 0 3 * CVector4_w vec)
       (Matrix4x4_m M 1 0 * CVector4_x vec + Matrix4x4_m M 1 1 * CVector4_y vec
          + Matrix4x4_m M 1 2 * CVector4_z vec + Matrix4x4_m M 1 3 * CVector4_w vec)
       (Matrix4x4_m M 2 0 * CVector4_x vec + Matrix4x4_m M 2 1 * CVector4_y vec
          + Matrix4x4_m M 2 2 * CVector4_z vec + Matrix4x4_m M 2 3 * CVector4_w vec)
       (Matrix4x4_m M 3 0 * CVector4_x vec + Matrix4x4_m M 3 1 * CVector4_y vec
          + Matrix4x4_m M 3 2 * CVector4_z vec + Matrix4x4_m M 3 3 * CVector4_w vec)"

definition Matrix4x4_mul_CVector3 :: "Matrix4x4 \<Rightarrow> CVector3 \<Rightarrow> CVector3" where
  "Matrix4x4_mul_CVector3 M vec =
     (let x = Matrix4x4_m M 0 0 * CVector3_x vec + Matrix4x4_m M 0 1 * CVector3_y vec
                + Matrix4x4_m M 0 2 * CVector3_z vec + Matrix4x4_m M 0 3;
          y = Matrix4x4_m M 1 0 * CVector3_x vec + Matrix4x4_m M 1 1 * CVector3_y vec
                + Matrix4x4_m M 1 2 * CVector3_z vec + Matrix4x4_m M 1 3;
          z = Matrix4x4_m M 2 0 * CVector3_x vec + Matrix4x4_m M 2 1 * CVector3_y vec
                + Matrix4x4_m M 2 2 * CVector3_z vec + Matrix4x4_m M 2 3;
          w = Matrix4x4_m M 3 0 * CVector3_x vec + Matrix4x4_m M 3 1 * CVector3_y vec
                + Matrix4x4_m M 3 2 * CVector3_z vec + Matrix4x4_m M 3 3;
          (x, y, z) = (if w \<noteq> 0 then (x / w, y / w, z / w) else (x, y, z))
      in CVector3 x y z)"

subsection \<open>Reference definitions taken from the specification\<close>

text \<open>One Newton--Raphson step for the square root of \<open>x\<close>:
  \<open>xi := xi - (xi\<^sup>2 - x) / (2 * xi)\<close>.\<close>

definition newton_step :: "real \<Rightarrow> real \<Rightarrow> real" where
  "newton_step x xi = xi - (xi\<^sup>2 - x) / (2 * xi)"



text \<open>Truncation toward zero, and the conventional remainder \<open>a - b * trunc (a / b)\<close>.\<close>

definition trunc_toward_zero :: "real \<Rightarrow> int" where
  "trunc_toward_zero r = (if 0 \<le> r then \<lfloor>\<bar>r\<bar>\<rfloor> else - \<lfloor>\<bar>r\<bar>\<rfloor>)"

definition conventional_remainder :: "real \<Rightarrow> real \<Rightarrow> real" where
  "conventional_remainder a b = a - b * real_of_int (trunc_toward_zero (a / b))"






text \<open>Clamping to the unit interval.\<close>

definition clamp01 :: "real \<Rightarrow> real" where
  "clamp01 t = max 0 (min 1 t)"

section \<open>Rounding to binary32\<close>


lemma round_half_even_of_int [simp]: "round_half_even (real_of_int n) = n"
  by (simp add: round_half_even_def)



lemma binary32_zero [simp]: "binary32 0 = 0"
  by (simp add: binary32_def)

lemma binary32_binade:
  assumes "2 powr real_of_int e \<le> \<bar>x\<bar>" and "\<bar>x\<bar> < 2 powr (real_of_int e + 1)" and "- 126 \<le> e"
  shows "binary32 x = 2 powr (real_of_int e - 23) * real_of_int (round_half_even (x / 2 powr (real_of_int e - 23)))"
proof -
  have pos: "0 < \<bar>x\<bar>"
    using assms(1) by (rule less_le_trans [rotated]) simp
  then have nz: "x \<noteq> 0" by auto
  have "\<lfloor>log 2 \<bar>x\<bar>\<rfloor> = e"
    using assms(1,2) pos by (simp add: floor_log_eq_powr_iff)
  then have "max (- 126) \<lfloor>log 2 \<bar>x\<bar>\<rfloor> = e"
    using assms(3) by simp
  then show ?thesis
    using nz by (simp add: binary32_def Let_def)
qed




lemma binary32_int_exact:
  assumes "\<bar>real_of_int i\<bar> \<le> 16777216"
  shows "binary32 (real_of_int i) = real_of_int i"
proof (cases "i = 0")
  case True
  then show ?thesis by simp
next
  case False
  then have "1 \<le> \<bar>i\<bar>" by arith
  then have "real_of_int 1 \<le> real_of_int \<bar>i\<bar>" by (simp only: of_int_le_iff)
  then have one: "1 \<le> \<bar>real_of_int i\<bar>" by simp
  show ?thesis
  proof (cases "\<bar>real_of_int i\<bar> = 16777216")
    case True
    have b: "binary32 (real_of_int i) =
        2 powr (real_of_int 24 - 23) * real_of_int (round_half_even (real_of_int i / 2 powr (real_of_int 24 - 23)))"
      by (rule binary32_binade) (simp_all add: True)
    have "real_of_int \<bar>i\<bar> = real_of_int 16777216"
      using True by simp
    then have "\<bar>i\<bar> = 16777216"
      by (simp only: of_int_eq_iff)
    then have "i = 16777216 \<or> i = - 16777216"
      by arith
    then show ?thesis
    proof
      assume "i = 16777216"
      then show ?thesis
        unfolding b by (simp add: round_half_even_def)
    next
      assume "i = - 16777216"
      then show ?thesis
        unfolding b by (simp add: round_half_even_def)
    qed
  next
    case False
    with assms have lt: "\<bar>real_of_int i\<bar> < 16777216" by simp
    define e where "e = \<lfloor>log 2 \<bar>real_of_int i\<bar>\<rfloor>"
    have pos: "0 < \<bar>real_of_int i\<bar>" using one by simp
    have e0: "0 \<le> e"
      using one by (simp add: e_def le_floor_iff le_log_iff)
    have "log 2 \<bar>real_of_int i\<bar> < 24"
      using lt pos by (simp add: log_less_iff)
    then have e23: "e \<le> 23"
      by (simp add: e_def floor_less_iff)
    have bin: "2 powr real_of_int e \<le> \<bar>real_of_int i\<bar>" "\<bar>real_of_int i\<bar> < 2 powr (real_of_int e + 1)"
      using floor_log_eq_powr_iff [of "\<bar>real_of_int i\<bar>" 2 e] pos by (simp_all add: e_def)
    have b: "binary32 (real_of_int i) =
        2 powr (real_of_int e - 23) * real_of_int (round_half_even (real_of_int i / 2 powr (real_of_int e - 23)))"
      using bin e0 by (intro binary32_binade) simp_all
    have "real_of_int e - 23 = - real (nat (23 - e))"
      using e23 by simp
    then have "2 powr (real_of_int e - 23) = 2 powr (- real (nat (23 - e)))"
      by (rule arg_cong)
    also have "\<dots> = 1 / 2 ^ nat (23 - e)"
      by (simp only: powr_minus powr_realpow zero_less_numeral inverse_eq_divide)
    finally have p: "2 powr (real_of_int e - 23) = 1 / 2 ^ nat (23 - e)" .
    have q: "real_of_int i / 2 powr (real_of_int e - 23) = real_of_int (i * 2 ^ nat (23 - e))"
      by (simp add: p)
    have "binary32 (real_of_int i) = 2 powr (real_of_int e - 23) * real_of_int (i * 2 ^ nat (23 - e))"
      unfolding b q round_half_even_of_int ..
    also have "\<dots> = real_of_int i"
      by (simp add: p)
    finally show ?thesis .
  qed
qed





section \<open>Default construction and inversion of matrices\<close>

lemma fold_weak_cong: "xs = ys \<Longrightarrow> s = t \<Longrightarrow> fold f xs s = fold f ys t"
  by simp

lemma upt_2: "[0..<2] = [0, 1]"
  by (simp add: upt_rec)

lemma upt_3: "[0..<3] = [0, 1, 2]"
  by (simp add: upt_rec)

lemmas Matrix2x2_simps =
  Matrix2x2_m_def Matrix2x2_assign_def Matrix2x2_def array2_get_def array2_set_def

lemmas Matrix3x3_simps =
  Matrix3x3_m_def Matrix3x3_assign_def Matrix3x3_def array3_get_def array3_set_def

lemmas Matrix4x4_simps =
  Matrix4x4_m_def Matrix4x4_assign_def Matrix4x4_def array4_get_def array4_set_def

lemma Matrix2x2_setIdentity_overwrites:
  "Matrix2x2_setIdentity this = Matrix2x2 1 0 0 1"
  by (simp add: Matrix2x2_setIdentity_def Matrix2x2_simps cong: fold_weak_cong)

lemma Matrix3x3_setIdentity_overwrites:
  "Matrix3x3_setIdentity this = Matrix3x3 1 0 0  0 1 0  0 0 1"
  by (simp add: Matrix3x3_setIdentity_def Matrix3x3_simps cong: fold_weak_cong)

lemma Matrix4x4_setIdentity_overwrites:
  "Matrix4x4_setIdentity this = Matrix4x4 1 0 0 0  0 1 0 0  0 0 1 0  0 0 1 0"
  by (simp add: Matrix4x4_setIdentity_def Matrix4x4_simps cong: fold_weak_cong)

lemma default_Matrix2x2_identity:
  assumes "i < 2" and "j < 2"
  shows "Matrix2x2_m (Matrix2x2_new storage) i j = (if i = j then 1 else 0)"
proof -
  from assms have "i = 0 \<or> i = 1" "j = 0 \<or> j = 1" by auto
  then show ?thesis
    by (auto simp add: Matrix2x2_new_def Matrix2x2_setIdentity_overwrites Matrix2x2_simps)
qed

lemma default_Matrix3x3_identity:
  assumes "i < 3" and "j < 3"
  shows "Matrix3x3_m (Matrix3x3_new storage) i j = (if i = j then 1 else 0)"
proof -
  from assms have "i = 0 \<or> i = 1 \<or> i = 2" "j = 0 \<or> j = 1 \<or> j = 2" by auto
  then show ?thesis
    by (auto simp add: Matrix3x3_new_def Matrix3x3_setIdentity_overwrites Matrix3x3_simps)
qed

text \<open>
  C1. The default-constructed \<open>Matrix2x2\<close>, \<open>Matrix3x3\<close> and \<open>Matrix4x4\<close> are meant to
  be identity matrices. The default constructors of \<open>Matrix2x2\<close> and \<open>Matrix3x3\<close> do
  produce the identity, whatever the storage held. \<^verbatim>\<open>Matrix4x4::setIdentity\<close> writes
  \<^verbatim>\<open>m[3][2] = 1.f; m[3][3] = 0.f;\<close>, so the default-constructed \<open>Matrix4x4\<close> has 1 at
  row 3, column 2 and 0 at row 3, column 3, and differs from \<^verbatim>\<open>Matrix4x4::identity()\<close>.
\<close>

theorem default_constructed_matrices:
  "Matrix2x2_new storage2 = Matrix2x2 1 0  0 1
   \<and> Matrix3x3_new storage3 = Matrix3x3_identity
   \<and> Matrix4x4_new storage4 = Matrix4x4 1 0 0 0  0 1 0 0  0 0 1 0  0 0 1 0
   \<and> Matrix4x4_m (Matrix4x4_new storage4) 3 2 = 1
   \<and> Matrix4x4_m (Matrix4x4_new storage4) 3 3 = 0
   \<and> Matrix4x4_new storage4 \<noteq> Matrix4x4_identity"
  by (simp add: Matrix2x2_new_def Matrix2x2_setIdentity_overwrites
      Matrix3x3_new_def Matrix3x3_setIdentity_overwrites Matrix3x3_identity_def
      Matrix4x4_new_def Matrix4x4_setIdentity_overwrites Matrix4x4_identity_def
      Matrix4x4_simps)

lemma Matrix2x2_mul_cells:
  "Matrix2x2_mul (Matrix2x2 a b c d) (Matrix2x2 e f g h) =
     Matrix2x2 (a * e + b * g) (a * f + b * h) (c * e + d * g) (c * f + d * h)"
  by (simp add: Matrix2x2_mul_def upt_2 Matrix2x2_zero_def Matrix2x2_simps cong: fold_weak_cong)

lemma Matrix2x2_cases:
  obtains a b c d where "M = Matrix2x2 a b c d"
proof -
  obtain r0 r1 where "M = Array2 r0 r1" by (cases M)
  moreover obtain a b where "r0 = Array2 a b" by (cases r0)
  moreover obtain c d where "r1 = Array2 c d" by (cases r1)
  ultimately have "M = Matrix2x2 a b c d" by (simp add: Matrix2x2_def)
  then show ?thesis ..
qed

lemma Matrix2x2_inverse_right:
  assumes "Matrix2x2_determinant M \<noteq> 0"
  shows "Matrix2x2_mul M (Matrix2x2_inverse storage M) = Matrix2x2 1 0 0 1"
proof -
  obtain a b c d where M: "M = Matrix2x2 a b c d"
    by (rule Matrix2x2_cases)
  have det: "Matrix2x2_determinant M = a * d - b * c"
    by (simp add: M Matrix2x2_determinant_def Matrix2x2_simps)
  define invDet where "invDet = 1 / Matrix2x2_determinant M"
  have unit: "(a * d - b * c) * invDet = 1"
    using assms by (simp add: invDet_def det)
  have inv: "Matrix2x2_inverse storage M =
      Matrix2x2 (d * invDet) (- b * invDet) (- c * invDet) (a * invDet)"
    using assms by (simp add: Matrix2x2_inverse_def Let_def invDet_def [symmetric])
      (simp add: M Matrix2x2_simps)
  have "a * (d * invDet) + b * (- c * invDet) = (a * d - b * c) * invDet"
    by (simp add: algebra_simps)
  then have c00: "a * (d * invDet) + b * (- c * invDet) = 1"
    using unit by simp
  have "c * (- b * invDet) + d * (a * invDet) = (a * d - b * c) * invDet"
    by (simp add: algebra_simps)
  then have c11: "c * (- b * invDet) + d * (a * invDet) = 1"
    using unit by simp
  have c01: "a * (- b * invDet) + b * (a * invDet) = 0"
    and c10: "c * (d * invDet) + d * (- c * invDet) = 0"
    by (simp_all add: algebra_simps)
  show ?thesis
    unfolding inv unfolding M Matrix2x2_mul_cells c00 c01 c10 c11 ..
qed

lemma Matrix2x2_inverse_singular:
  "Matrix2x2_determinant M = 0 \<Longrightarrow> Matrix2x2_inverse storage M = Matrix2x2 1 0 0 1"
  by (simp add: Matrix2x2_inverse_def Matrix2x2_new_def Matrix2x2_setIdentity_overwrites)

lemma Matrix3x3_inverse_singular:
  "Matrix3x3_determinant M = 0 \<Longrightarrow> Matrix3x3_inverse storage M = Matrix3x3_identity"
  by (simp add: Matrix3x3_inverse_def)

lemma Matrix3x3_mul_cells:
  "Matrix3x3_mul (Matrix3x3 a00 a01 a02 a10 a11 a12 a20 a21 a22)
                 (Matrix3x3 b00 b01 b02 b10 b11 b12 b20 b21 b22) =
     Matrix3x3
       (a00 * b00 + a01 * b10 + a02 * b20) (a00 * b01 + a01 * b11 + a02 * b21)
       (a00 * b02 + a01 * b12 + a02 * b22)
       (a10 * b00 + a11 * b10 + a12 * b20) (a10 * b01 + a11 * b11 + a12 * b21)
       (a10 * b02 + a11 * b12 + a12 * b22)
       (a20 * b00 + a21 * b10 + a22 * b20) (a20 * b01 + a21 * b11 + a22 * b21)
       (a20 * b02 + a21 * b12 + a22 * b22)"
  by (simp add: Matrix3x3_mul_def upt_3 Matrix3x3_zero_def Matrix3x3_simps cong: fold_weak_cong)

lemma Matrix3x3_scale_cells:
  "Matrix3x3_scale storage (Matrix3x3 a00 a01 a02 a10 a11 a12 a20 a21 a22) sca =
     Matrix3x3 (a00 * sca) (a01 * sca) (a02 * sca) (a10 * sca) (a11 * sca) (a12 * sca)
               (a20 * sca) (a21 * sca) (a22 * sca)"
  by (simp add: Matrix3x3_scale_def upt_3 Matrix3x3_new_def Matrix3x3_setIdentity_overwrites
      Matrix3x3_simps cong: fold_weak_cong)

lemma Matrix3x3_adjugate_cells:
  "Matrix3x3_adjugate (Matrix3x3 a00 a01 a02 a10 a11 a12 a20 a21 a22) =
     Matrix3x3
       (a11 * a22 - a12 * a21) (- (a21 * a02 - a22 * a01)) (a01 * a12 - a02 * a11)
       (- (a12 * a20 - a10 * a22)) (a22 * a00 - a20 * a02) (- (a02 * a10 - a00 * a12))
       (a10 * a21 - a11 * a20) (- (a20 * a01 - a21 * a00)) (a00 * a11 - a01 * a10)"
  by (simp add: Matrix3x3_adjugate_def Matrix3x3_cofactorMatrix_def Matrix3x3_transpose_def
      Matrix3x3_cofactor_def Let_def Matrix3x3_simps)

text \<open>
  C4. For \<open>Matrix2x2\<close> and \<open>Matrix3x3\<close>, \<open>m * m.inverse()\<close> is meant to be the identity
  when the determinant is nonzero, and \<open>m.inverse()\<close> the identity when it is zero.
  This holds for \<open>Matrix2x2\<close> (\<open>Matrix2x2_inverse_right\<close>, \<open>Matrix2x2_inverse_singular\<close>)
  and for a singular \<open>Matrix3x3\<close> (\<open>Matrix3x3_inverse_singular\<close>).
  \<^verbatim>\<open>Matrix3x3::cofactor\<close> takes its minor at cyclically shifted rows and columns,
  which already carries the sign of the cofactor, and then negates it again where
  \<open>fil + col\<close> is odd. At the matrix with rows (1,1,0), (0,1,0), (0,0,1), of determinant
  1, \<open>inverse()\<close> returns the matrix itself and the product is (1,2,0), (0,1,0), (0,0,1).
\<close>

theorem Matrix3x3_inverse_wrong:
  "Matrix3x3_determinant (Matrix3x3 1 1 0  0 1 0  0 0 1) = 1
   \<and> Matrix3x3_inverse storage (Matrix3x3 1 1 0  0 1 0  0 0 1) = Matrix3x3 1 1 0  0 1 0  0 0 1
   \<and> Matrix3x3_mul (Matrix3x3 1 1 0  0 1 0  0 0 1)
        (Matrix3x3_inverse storage (Matrix3x3 1 1 0  0 1 0  0 0 1))
       = Matrix3x3 1 2 0  0 1 0  0 0 1
   \<and> Matrix3x3 1 2 0  0 1 0  0 0 1 \<noteq> Matrix3x3_identity"
proof -
  have det: "Matrix3x3_determinant (Matrix3x3 1 1 0  0 1 0  0 0 1) = 1"
    by (simp add: Matrix3x3_determinant_def Matrix3x3_simps)
  have inv: "Matrix3x3_inverse storage (Matrix3x3 1 1 0  0 1 0  0 0 1)
      = Matrix3x3 1 1 0  0 1 0  0 0 1"
    unfolding Matrix3x3_inverse_def Let_def det Matrix3x3_adjugate_cells Matrix3x3_scale_cells
    by (simp add: Matrix3x3_def)
  have prod: "Matrix3x3_mul (Matrix3x3 1 1 0  0 1 0  0 0 1) (Matrix3x3 1 1 0  0 1 0  0 0 1)
      = Matrix3x3 1 2 0  0 1 0  0 0 1"
    unfolding Matrix3x3_mul_cells by (simp add: Matrix3x3_def)
  have ne: "Matrix3x3 1 2 0  0 1 0  0 0 1 \<noteq> Matrix3x3_identity"
    by (simp add: Matrix3x3_identity_def Matrix3x3_def)
  show ?thesis
    unfolding inv prod using det ne by simp
qed

section \<open>Scalar functions\<close>

subsection \<open>cos\<close>




















subsection \<open>power\<close>





text \<open>Above \<open>2\<^sup>2\<^sup>4\<close> the converted counter is rounded and the loop can end early: with
  the exponent 16777220 the counter 16777219 converts to 16777220 and the loop stops after
  16777219 multiplications.\<close>

lemma binary32_16777216: "binary32 16777216 = 16777216"
  using binary32_int_exact [of 16777216] by simp

lemma binary32_16777217: "binary32 16777217 = 16777216"
proof -
  have "binary32 16777217 =
      2 powr (real_of_int 24 - 23) * real_of_int (round_half_even (16777217 / 2 powr (real_of_int 24 - 23)))"
    by (rule binary32_binade) simp_all
  then show ?thesis
    by (simp add: round_half_even_def)
qed

lemma binary32_16777218: "binary32 16777218 = 16777218"
proof -
  have "binary32 16777218 =
      2 powr (real_of_int 24 - 23) * real_of_int (round_half_even (16777218 / 2 powr (real_of_int 24 - 23)))"
    by (rule binary32_binade) simp_all
  then show ?thesis
    by (simp add: round_half_even_def)
qed

lemma binary32_16777219: "binary32 16777219 = 16777220"
proof -
  have "binary32 16777219 =
      2 powr (real_of_int 24 - 23) * real_of_int (round_half_even (16777219 / 2 powr (real_of_int 24 - 23)))"
    by (rule binary32_binade) simp_all
  then show ?thesis
    by (simp add: round_half_even_def)
qed

lemma power_loop_run:
  "0 \<le> i \<Longrightarrow> i \<le> j \<Longrightarrow> real_of_int j \<le> 16777216 \<Longrightarrow> real_of_int j \<le> exponent \<Longrightarrow>
     power_loop i result base exponent
       = power_loop j (result * base ^ nat (j - i)) base exponent"
proof (induction i result base exponent rule: power_loop.induct)
  case (1 i result base exponent)
  show ?case
  proof (cases "i = j")
    case True
    then show ?thesis by simp
  next
    case False
    with "1.prems"(2) have lt: "i < j" by simp
    then have "real_of_int i < real_of_int j" by (simp only: of_int_less_iff)
    with "1.prems"(3,4) have i_small: "real_of_int i \<le> 16777216" and i_lt: "real_of_int i < exponent"
      by simp_all
    have conv: "binary32 (real_of_int i) = real_of_int i"
      using "1.prems"(1) i_small by (intro binary32_int_exact) simp
    have "real_of_int i < real_of_int 16777216"
      using \<open>real_of_int i < real_of_int j\<close> "1.prems"(3) by simp
    then have "i < 16777216" by (simp only: of_int_less_iff)
    then have ne: "\<not> INT_MAX \<le> i" by (simp add: INT_MAX_def)
    have n: "nat (j - i) = Suc (nat (j - (i + 1)))"
      using lt by simp
    have "power_loop i result base exponent = power_loop (i + 1) (result * base) base exponent"
      using i_lt ne by (subst power_loop.simps) (simp add: conv)
    also have "\<dots> = power_loop j (result * base * base ^ nat (j - (i + 1))) base exponent"
      using i_lt ne lt "1.prems" by (intro "1.IH") (simp_all add: conv)
    finally show ?thesis
      unfolding n by (simp add: mult.assoc)
  qed
qed

lemma power_rounded_counter:
  "EngineMath_power (- 1) 16777220 = Some (- 1)"
proof -
  have "EngineMath_power (- 1) 16777220 = power_loop 16777216 ((- 1) ^ nat 16777216) (- 1) 16777220"
    unfolding EngineMath_power_def
    using power_loop_run [of 0 16777216 16777220 1 "- 1"] by simp
  also have "\<dots> = power_loop 16777216 1 (- 1) 16777220"
    by simp
  also have "\<dots> = power_loop 16777217 (- 1) (- 1) 16777220"
    by (subst power_loop.simps) (simp add: binary32_16777216 INT_MAX_def)
  also have "\<dots> = power_loop 16777218 1 (- 1) 16777220"
    by (subst power_loop.simps) (simp add: binary32_16777217 INT_MAX_def)
  also have "\<dots> = power_loop 16777219 (- 1) (- 1) 16777220"
    by (subst power_loop.simps) (simp add: binary32_16777218 INT_MAX_def)
  also have "\<dots> = Some (- 1)"
    by (subst power_loop.simps) (simp add: binary32_16777219)
  finally show ?thesis .
qed

subsection \<open>sqrt\<close>

lemma sqrt_loop_funpow:
  "i \<le> 10 \<Longrightarrow> sqrt_loop i xi number = (newton_step number ^^ nat (10 - i)) xi"
proof (induction i xi number rule: sqrt_loop.induct)
  case (1 i xi number)
  show ?case
  proof (cases "i < 10")
    case True
    then have n: "nat (10 - i) = Suc (nat (10 - (i + 1)))"
      by simp
    have step: "xi - (square xi - number) / (2 * xi) = newton_step number xi"
      by (simp add: newton_step_def square_def power2_eq_square)
    from True have "sqrt_loop i xi number = sqrt_loop (i + 1) (newton_step number xi) number"
      by (subst sqrt_loop.simps) (simp add: step)
    also have "\<dots> = (newton_step number ^^ nat (10 - (i + 1))) (newton_step number xi)"
      using "1.IH" [OF True] True by (simp add: step)
    also have "\<dots> = (newton_step number ^^ nat (10 - i)) xi"
      unfolding n by (simp add: funpow_swap1)
    finally show ?thesis .
  next
    case False
    with "1.prems" have "i = 10" by simp
    then show ?thesis by (subst sqrt_loop.simps) simp
  qed
qed

lemma newton_step_pos:
  assumes "0 < x" "0 < xi"
  shows "0 < newton_step x xi"
proof -
  have "newton_step x xi = (xi\<^sup>2 + x) / (2 * xi)"
    using assms by (simp add: newton_step_def field_simps power2_eq_square)
  moreover have "0 < (xi\<^sup>2 + x) / (2 * xi)"
    using assms by (simp add: pos_add_strict)
  ultimately show ?thesis by simp
qed

lemma newton_iter_pos:
  "0 < x \<Longrightarrow> 0 < xi \<Longrightarrow> 0 < (newton_step x ^^ k) xi"
  by (induction k) (simp_all add: newton_step_pos)

text \<open>
  C6. \<open>sqrt\<close> returns 0 for every \<open>number \<le> 0\<close>. For every \<open>number > 0\<close> it returns the
  tenth Newton--Raphson iterate of \<open>xi := xi - (xi\<^sup>2 - number) / (2 * xi)\<close> from the seed
  \<open>number / 2\<close>, and the divisor \<open>2 * xi\<close> of each of the ten steps is nonzero, so no step
  divides by zero.
\<close>

theorem sqrt_newton:
  "(number \<le> 0 \<longrightarrow> EngineMath_sqrt number = 0) \<and>
   (0 < number \<longrightarrow>
      EngineMath_sqrt number = (newton_step number ^^ 10) (number / 2) \<and>
      (\<forall>k<10. 2 * (newton_step number ^^ k) (number / 2) \<noteq> 0))"
proof (intro conjI impI allI)
  assume "number \<le> 0"
  then show "EngineMath_sqrt number = 0"
    by (simp add: EngineMath_sqrt_def)
next
  assume "0 < number"
  then show "EngineMath_sqrt number = (newton_step number ^^ 10) (number / 2)"
    by (simp add: EngineMath_sqrt_def sqrt_loop_funpow)
next
  fix k :: nat
  assume "0 < number"
  then have "0 < (newton_step number ^^ k) (number / 2)"
    by (intro newton_iter_pos) simp_all
  then show "2 * (newton_step number ^^ k) (number / 2) \<noteq> 0"
    by simp
qed

theorem sqrt_newton_witness:
  "EngineMath_sqrt 0 = 0 \<and> EngineMath_sqrt (- 1) = 0 \<and> (0::real) < 4 \<and> EngineMath_sqrt 4 = 2"
proof -
  have "(newton_step 4 ^^ 10) (4 / 2) = 2"
    by (simp add: newton_step_def eval_nat_numeral)
  then show ?thesis
    using sqrt_newton [of 0] sqrt_newton [of "- 1"] sqrt_newton [of 4] by simp
qed

subsection \<open>mod\<close>

lemma static_cast_int_trunc:
  "static_cast_int f =
     (if - 2147483649 < f \<and> f < 2147483648 then Some (trunc_toward_zero f) else None)"
proof (cases "0 \<le> f")
  case True
  then have "0 \<le> \<lfloor>f\<rfloor>" by simp
  moreover have "\<lfloor>f\<rfloor> \<le> 2147483647 \<longleftrightarrow> f < 2147483648"
    by (simp add: floor_le_iff)
  ultimately show ?thesis
    using True by (simp add: static_cast_int_def trunc_toward_zero_def INT_MIN_def INT_MAX_def)
next
  case False
  then have "\<lceil>f\<rceil> \<le> 0" by (simp add: ceiling_le_iff)
  moreover have "- 2147483648 \<le> \<lceil>f\<rceil> \<longleftrightarrow> - 2147483649 < f"
    by (simp add: le_ceiling_iff)
  moreover have "- \<lfloor>\<bar>f\<bar>\<rfloor> = \<lceil>f\<rceil>"
    using False by (simp add: ceiling_def)
  ultimately show ?thesis
    using False by (simp add: static_cast_int_def trunc_toward_zero_def INT_MIN_def INT_MAX_def)
qed

lemma mod_within_int_range:
  "EngineMath_mod a b =
     (if b = 0 then Some 0
      else if - 2147483649 < a / b \<and> a / b < 2147483648
        then Some (a / b - real_of_int (trunc_toward_zero (a / b)))
      else None)"
  by (simp add: EngineMath_mod_def static_cast_int_trunc)

lemma mod_not_remainder:
  "EngineMath_mod 7 2 = Some (1 / 2)" and "conventional_remainder 7 2 = 1"
  by (simp_all add: mod_within_int_range conventional_remainder_def trunc_toward_zero_def)

text \<open>
  C7. \<open>mod(a, b)\<close> is meant to return, for every \<open>a\<close> and every \<open>b \<noteq> 0\<close>, the fractional
  part \<open>a / b - trunc (a / b)\<close> of the quotient (not the conventional remainder:
  \<open>mod_not_remainder\<close>), and \<open>mod(a, 0)\<close> returns 0. It does return the fractional part
  while the truncated quotient is an \<^verbatim>\<open>int\<close> (\<open>mod_within_int_range\<close>). At
  \<open>a = 10000000000\<close>, \<open>b = 1\<close> the quotient has the fractional part 0 and no \<^verbatim>\<open>int\<close>
  holds its truncation, so \<^verbatim>\<open>static_cast<int>(a / b)\<close> is undefined and the function does
  not return the fractional part.
\<close>

theorem mod_quotient_beyond_int:
  "static_cast_int (10000000000 / 1) = None
   \<and> EngineMath_mod 10000000000 1 = None
   \<and> 10000000000 / 1 - real_of_int (trunc_toward_zero (10000000000 / 1)) = 0
   \<and> EngineMath_mod 5 0 = Some 0"
  by (simp add: EngineMath_mod_def static_cast_int_def INT_MAX_def INT_MIN_def
      trunc_toward_zero_def)

subsection \<open>lerp\<close>

lemma clamp01_source:
  "(let t = (if t < 0 then 0 else t); t = (if t > 1 then 1 else t) in f t) = f (clamp01 t)"
  by (simp add: clamp01_def Let_def max_def min_def)

text \<open>
  C10. The scalar \<open>EngineMath::lerp\<close> returns \<open>start + (end - start) * t\<close> for every \<open>t\<close>:
  with \<open>start < end\<close> it goes beyond \<open>end\<close> for \<open>t > 1\<close> and below \<open>start\<close> for \<open>t < 0\<close>.
  The \<open>lerp\<close> of \<open>CVector2\<close>, \<open>CVector3\<close>, \<open>CVector4\<close> and \<open>Quaternion\<close> is the scalar
  \<open>lerp\<close> of each component at \<open>t\<close> clamped to \<open>[0, 1]\<close> (followed by normalisation for
  the quaternion).
\<close>

theorem lerp_unclamped:
  "EngineMath_lerp start end' t = start + (end' - start) * t
   \<and> (start < end' \<and> 1 < t \<longrightarrow> end' < EngineMath_lerp start end' t)
   \<and> (start < end' \<and> t < 0 \<longrightarrow> EngineMath_lerp start end' t < start)
   \<and> CVector2_lerp a b t =
       CVector2 (EngineMath_lerp (CVector2_x a) (CVector2_x b) (clamp01 t))
                (EngineMath_lerp (CVector2_y a) (CVector2_y b) (clamp01 t))
   \<and> CVector3_lerp c d t =
       CVector3 (EngineMath_lerp (CVector3_x c) (CVector3_x d) (clamp01 t))
                (EngineMath_lerp (CVector3_y c) (CVector3_y d) (clamp01 t))
                (EngineMath_lerp (CVector3_z c) (CVector3_z d) (clamp01 t))
   \<and> CVector4_lerp g h t =
       CVector4 (EngineMath_lerp (CVector4_x g) (CVector4_x h) (clamp01 t))
                (EngineMath_lerp (CVector4_y g) (CVector4_y h) (clamp01 t))
                (EngineMath_lerp (CVector4_z g) (CVector4_z h) (clamp01 t))
                (EngineMath_lerp (CVector4_w g) (CVector4_w h) (clamp01 t))
   \<and> Quaternion_lerp p q t =
       Quaternion_normalized
         (Quaternion (EngineMath_lerp (Quaternion_x p) (Quaternion_x q) (clamp01 t))
                     (EngineMath_lerp (Quaternion_y p) (Quaternion_y q) (clamp01 t))
                     (EngineMath_lerp (Quaternion_z p) (Quaternion_z q) (clamp01 t))
                     (EngineMath_lerp (Quaternion_w p) (Quaternion_w q) (clamp01 t)))"
proof (intro conjI impI)
  show "EngineMath_lerp start end' t = start + (end' - start) * t"
    by (simp add: EngineMath_lerp_def)
next
  assume h: "start < end' \<and> 1 < t"
  then have "0 < (end' - start) * (t - 1)"
    by (intro mult_pos_pos) simp_all
  then show "end' < EngineMath_lerp start end' t"
    by (simp add: EngineMath_lerp_def algebra_simps)
next
  assume h: "start < end' \<and> t < 0"
  then have "(end' - start) * t < 0"
    by (intro mult_pos_neg) simp_all
  then show "EngineMath_lerp start end' t < start"
    by (simp add: EngineMath_lerp_def)
next
  show "CVector2_lerp a b t =
       CVector2 (EngineMath_lerp (CVector2_x a) (CVector2_x b) (clamp01 t))
                (EngineMath_lerp (CVector2_y a) (CVector2_y b) (clamp01 t))"
    unfolding CVector2_lerp_def clamp01_source
    by (simp add: CVector2_add_def CVector2_scale_def CVector2_sub_def EngineMath_lerp_def)
next
  show "CVector3_lerp c d t =
       CVector3 (EngineMath_lerp (CVector3_x c) (CVector3_x d) (clamp01 t))
                (EngineMath_lerp (CVector3_y c) (CVector3_y d) (clamp01 t))
                (EngineMath_lerp (CVector3_z c) (CVector3_z d) (clamp01 t))"
    unfolding CVector3_lerp_def clamp01_source
    by (simp add: CVector3_add_def CVector3_scale_def CVector3_sub_def EngineMath_lerp_def)
next
  show "CVector4_lerp g h t =
       CVector4 (EngineMath_lerp (CVector4_x g) (CVector4_x h) (clamp01 t))
                (EngineMath_lerp (CVector4_y g) (CVector4_y h) (clamp01 t))
                (EngineMath_lerp (CVector4_z g) (CVector4_z h) (clamp01 t))
                (EngineMath_lerp (CVector4_w g) (CVector4_w h) (clamp01 t))"
    unfolding CVector4_lerp_def clamp01_source
    by (simp add: CVector4_add_def CVector4_scale_def CVector4_sub_def EngineMath_lerp_def)
next
  have cl: "(if t < 0 then 0 else if t > 1 then 1 else t) = clamp01 t"
    by (simp add: clamp01_def max_def min_def)
  show "Quaternion_lerp p q t =
       Quaternion_normalized
         (Quaternion (EngineMath_lerp (Quaternion_x p) (Quaternion_x q) (clamp01 t))
                     (EngineMath_lerp (Quaternion_y p) (Quaternion_y q) (clamp01 t))
                     (EngineMath_lerp (Quaternion_z p) (Quaternion_z q) (clamp01 t))
                     (EngineMath_lerp (Quaternion_w p) (Quaternion_w q) (clamp01 t)))"
    unfolding Quaternion_lerp_def cl Let_def EngineMath_lerp_def ..
qed

theorem lerp_unclamped_witness:
  "EngineMath_lerp 0 10 2 = 20 \<and> EngineMath_lerp 0 10 (- 1) = - 10
   \<and> (0::real) < 10 \<and> (1::real) < 2 \<and> (10::real) < EngineMath_lerp 0 10 2
   \<and> (- 1::real) < 0 \<and> EngineMath_lerp 0 10 (- 1) < 0
   \<and> CVector2_lerp (CVector2 0 0) (CVector2 10 10) 2 = CVector2 10 10
   \<and> CVector2_lerp (CVector2 0 0) (CVector2 10 10) (- 1) = CVector2 0 0"
  using lerp_unclamped [of 0 10 2 "CVector2 0 0" "CVector2 10 10"]
    lerp_unclamped [of 0 10 "- 1" "CVector2 0 0" "CVector2 10 10"]
  by (simp add: clamp01_def EngineMath_lerp_def)

section \<open>Quaternion inverse\<close>












section \<open>Homogeneous transforms and component access\<close>

text \<open>
  C8. \<open>Matrix3x3 * CVector2\<close> is the linear map \<open>Matrix3x3 * CVector3\<close> applied to
  \<open>(x, y, 1)\<close>, and \<open>Matrix4x4 * CVector3\<close> is \<open>Matrix4x4 * CVector4\<close> applied to
  \<open>(x, y, z, 1)\<close>: when the last component \<open>w\<close> of that image is nonzero every returned
  component is divided by \<open>w\<close>, and when it is 0 the components are returned undivided.
\<close>

theorem homogeneous_transform:
  "Matrix3x3_mul_CVector2 M v =
     (let h = Matrix3x3_mul_CVector3 M (CVector3 (CVector2_x v) (CVector2_y v) 1)
      in if CVector3_z h \<noteq> 0
         then CVector2 (CVector3_x h / CVector3_z h) (CVector3_y h / CVector3_z h)
         else CVector2 (CVector3_x h) (CVector3_y h))
   \<and> Matrix4x4_mul_CVector3 N u =
     (let h = Matrix4x4_mul_CVector4 N (CVector4 (CVector3_x u) (CVector3_y u) (CVector3_z u) 1)
      in if CVector4_w h \<noteq> 0
         then CVector3 (CVector4_x h / CVector4_w h) (CVector4_y h / CVector4_w h)
                       (CVector4_z h / CVector4_w h)
         else CVector3 (CVector4_x h) (CVector4_y h) (CVector4_z h))"
  by (simp add: Matrix3x3_mul_CVector2_def Matrix3x3_mul_CVector3_def
      Matrix4x4_mul_CVector3_def Matrix4x4_mul_CVector4_def Let_def)

theorem homogeneous_transform_witness:
  "Matrix3x3_mul_CVector2 (Matrix3x3 1 0 3  0 1 4  0 0 2) (CVector2 1 2) = CVector2 2 3
   \<and> Matrix3x3_mul_CVector2 (Matrix3x3 1 0 3  0 1 4  0 0 0) (CVector2 1 2) = CVector2 4 6
   \<and> Matrix4x4_mul_CVector3 (Matrix4x4 1 0 0 1  0 1 0 2  0 0 1 3  0 0 0 2) (CVector3 1 2 3)
        = CVector3 1 2 3
   \<and> Matrix4x4_mul_CVector3 (Matrix4x4 1 0 0 1  0 1 0 2  0 0 1 3  0 0 0 0) (CVector3 1 2 3)
        = CVector3 2 4 6"
  using homogeneous_transform [of "Matrix3x3 1 0 3  0 1 4  0 0 2" "CVector2 1 2"
      "Matrix4x4 1 0 0 1  0 1 0 2  0 0 1 3  0 0 0 2" "CVector3 1 2 3"]
    homogeneous_transform [of "Matrix3x3 1 0 3  0 1 4  0 0 0" "CVector2 1 2"
      "Matrix4x4 1 0 0 1  0 1 0 2  0 0 1 3  0 0 0 0" "CVector3 1 2 3"]
  by (simp add: Matrix3x3_mul_CVector3_def Matrix4x4_mul_CVector4_def
      Matrix3x3_m_def Matrix3x3_def array3_get_def
      Matrix4x4_m_def Matrix4x4_def array4_get_def)

text \<open>
  C9. For every index outside \<open>0..1\<close>, negative ones included, \<open>CVector2::operator[]\<close>
  returns \<open>y\<close>; for every index outside \<open>0..2\<close>, \<open>CVector3::operator[]\<close> returns \<open>z\<close>.
  Inside the range the index selects its component. Both are defined for every integer.
\<close>

theorem index_out_of_range:
  "(index < 0 \<or> 2 \<le> index \<longrightarrow> CVector2_index v index = CVector2_y v)
   \<and> (index < 0 \<or> 3 \<le> index \<longrightarrow> CVector3_index u index = CVector3_z u)
   \<and> CVector2_index v 0 = CVector2_x v \<and> CVector2_index v 1 = CVector2_y v
   \<and> CVector3_index u 0 = CVector3_x u \<and> CVector3_index u 1 = CVector3_y u
   \<and> CVector3_index u 2 = CVector3_z u"
  by (auto simp add: CVector2_index_def CVector3_index_def)

theorem index_out_of_range_witness:
  "CVector2_index (CVector2 10 20) (- 1) = 20 \<and> CVector2_index (CVector2 10 20) 2 = 20
   \<and> CVector3_index (CVector3 10 20 30) (- 1) = 30
   \<and> CVector3_index (CVector3 10 20 30) 3 = 30"
  using index_out_of_range [of "- 1" "CVector2 10 20" "CVector3 10 20 30"]
    index_out_of_range [of 2 "CVector2 10 20" "CVector3 10 20 30"]
    index_out_of_range [of 3 "CVector2 10 20" "CVector3 10 20 30"]
  by simp

end
